theory Spec2Isabelle
  imports Complex_Main "HOL-Library.Log_Nat"
begin

section \<open>The payment page of temp-wallet-test (src/app/page.tsx)\<close>

text \<open>
  The source file holds two revisions of the same React component \<open>Home\<close>. The second
  one (with the setup form, \<open>startPaymentFlow\<close> and \<open>resetFlow\<close>) is embedded in full;
  the first one shares \<open>checkBalance\<close> and the countdown with it and differs in taking the
  seller address and the required amount from constants.

  The component state (the \<open>useState\<close> cells) is a record. Every handler is a function
  from the state to the new state, together with the ledger calls it issues. The
  asynchronous handler \<open>checkBalance\<close> is cut at its three \<open>await\<close>s: each piece runs
  without interruption, and between two pieces any other handler may run. What the
  ledger answers, what \<open>Keypair.generate\<close> returns and the moments at which timers fire
  are inputs of the model (the events).

  A JavaScript number is modelled by its value: NaN, an infinity, or the rational a
  double stands for; a division rounds its exact quotient to the nearest double. A
  count of lamports is an integer, and integer arithmetic on it (\<open>balance - 5000\<close>)
  is exact, as it is in JavaScript up to \<open>2^53\<close>. The clipboard state \<open>copied\<close> and the
  two text inputs' change handlers are left out.
\<close>

subsection \<open>Numbers\<close>

datatype number = NaN | NegInfinity | Finite rat | PosInfinity

text \<open>\<open>a <= b\<close>, \<open>a >= b\<close> and \<open>a > b\<close> of JavaScript: false whenever an operand is NaN.\<close>

fun num_le :: "number \<Rightarrow> number \<Rightarrow> bool" where
  "num_le NaN b = False"
| "num_le a NaN = False"
| "num_le NegInfinity b = True"
| "num_le a PosInfinity = True"
| "num_le (Finite x) (Finite y) = (x \<le> y)"
| "num_le (Finite x) NegInfinity = False"
| "num_le PosInfinity b = False"

definition num_ge :: "number \<Rightarrow> number \<Rightarrow> bool" where
  "num_ge a b = num_le b a"

definition num_gt :: "number \<Rightarrow> number \<Rightarrow> bool" where
  "num_gt a b = (num_le b a \<and> \<not> num_le a b)"

definition isNaN :: "number \<Rightarrow> bool" where
  "isNaN a = (a = NaN)"

text \<open>
  Rounding to the nearest double (IEEE 754 binary64, ties to even, gradual underflow,
  overflow to an infinity). \<open>floorLog2 q\<close> is the integer part of the binary logarithm
  of a positive \<open>q\<close>; a double in the binade of \<open>q\<close> is a multiple of
  \<open>2^(floorLog2 q - 52)\<close>, and of \<open>2^-1074\<close> at least.
\<close>

definition floorLog2 :: "rat \<Rightarrow> int" where
  "floorLog2 q =
     (case quotient_of q of (a, b) \<Rightarrow>
        let k = bitlen a - bitlen b in
        if (if 0 \<le> k then b * 2 ^ nat k \<le> a else b \<le> a * 2 ^ nat (- k)) then k else k - 1)"

definition pow2 :: "int \<Rightarrow> rat" where
  "pow2 e = (if 0 \<le> e then 2 ^ nat e else 1 / 2 ^ nat (- e))"

definition roundHalfEven :: "rat \<Rightarrow> int" where
  "roundHalfEven x =
     (let f = \<lfloor>x\<rfloor>; d = x - of_int f in
      if d < 1 / 2 then f else if 1 / 2 < d then f + 1 else if even f then f else f + 1)"

definition toDouble :: "rat \<Rightarrow> number" where
  "toDouble q =
     (if q = 0 then Finite 0
      else let u = pow2 (max (floorLog2 \<bar>q\<bar> - 52) (- 1074));
               r = of_int (roundHalfEven (q / u)) * u
           in if 1024 \<le> floorLog2 \<bar>r\<bar> then (if 0 < q then PosInfinity else NegInfinity)
              else Finite r)"

subsection \<open>Constants\<close>

definition DEFAULT_SELLER_ADDRESS :: string where
  "DEFAULT_SELLER_ADDRESS = ''9RKnB9eWaBxX33spWTLm2333nE5QXgWfaC8BoS5Cj9Pf''"

definition DEFAULT_AMOUNT :: string where
  "DEFAULT_AMOUNT = ''0.01''"

definition PAYMENT_WINDOW :: int where
  "PAYMENT_WINDOW = 5 * 60"

definition LAMPORTS_PER_SOL :: int where
  "LAMPORTS_PER_SOL = 1000000000"



subsection \<open>The component state\<close>

type_synonym pubkey = string

record keypair =
  publicKey :: pubkey
  secretKey :: string

datatype status = Setup | Waiting | Received | Forwarding | Forwarded | Expired

record state =
  tempWallet :: "keypair option"
  timeLeft :: int
  status :: status
  balance :: number
  txSignature :: "string option"
  error :: "string option"
  sellerAddress :: string
  addressError :: "string option"
  amount :: string
  amountError :: "string option"

definition initial :: state where
  "initial = \<lparr> tempWallet = None, timeLeft = PAYMENT_WINDOW, status = Setup,
      balance = Finite 0, txSignature = None, error = None,
      sellerAddress = DEFAULT_SELLER_ADDRESS, addressError = None,
      amount = DEFAULT_AMOUNT, amountError = None \<rparr>"

subsection \<open>What the page uses of JavaScript and of @solana/web3.js\<close>

text \<open>
  \<open>parseFloat\<close>, the constructor \<open>new PublicKey(address)\<close> (\<open>Inl\<close> the message of the
  error it throws) and \<open>SystemProgram.transfer\<close> (\<open>Some\<close> the message of the error it
  throws, if it throws for these parameters) are not code of this repository: they are
  parameters of the model.
\<close>

record library =
  parseFloat :: "string \<Rightarrow> number"
  newPublicKey :: "string \<Rightarrow> string + pubkey"
  transferThrows :: "pubkey \<Rightarrow> pubkey \<Rightarrow> int \<Rightarrow> string option"


text \<open>
  The calls the page makes to the key generator, to \<open>SystemProgram.transfer\<close> and to
  the connection, in order. A call that throws has been made all the same.
\<close>

datatype call =
    KeypairGenerate
  | GetBalance pubkey
  | SystemProgramTransfer pubkey pubkey int
  | SendTransaction pubkey pubkey int
  | ConfirmTransaction string

subsection \<open>Validation and the two buttons\<close>

definition validateAddress :: "library \<Rightarrow> string \<Rightarrow> bool" where
  "validateAddress lib address =
     (case newPublicKey lib address of Inl _ \<Rightarrow> False | Inr _ \<Rightarrow> True)"

definition validateAmount :: "library \<Rightarrow> string \<Rightarrow> string option" where
  "validateAmount lib v =
     (let numValue = parseFloat lib v in
      if isNaN numValue then Some ''Amount must be a valid number''
      else if num_le numValue (Finite 0) then Some ''Amount must be greater than 0''
      else if num_gt numValue (Finite 100)
        then Some ''Amount must be less than or equal to 100 SOL''
      else None)"

text \<open>
  \<open>startPaymentFlow\<close>; \<open>newWallet\<close> is what \<open>Keypair.generate()\<close> returns when the
  handler gets that far.
\<close>

definition startPaymentFlow :: "library \<Rightarrow> keypair \<Rightarrow> state \<Rightarrow> state \<times> call list" where
  "startPaymentFlow lib newWallet s0 =
     (let s = s0\<lparr>addressError := None, amountError := None\<rparr> in
      if \<not> validateAddress lib (sellerAddress s)
      then (s\<lparr>addressError := Some ''Invalid Solana address''\<rparr>, [])
      else (case validateAmount lib (amount s) of
              Some amountErr \<Rightarrow> (s\<lparr>amountError := Some amountErr\<rparr>, [])
            | None \<Rightarrow>
                (s\<lparr>tempWallet := Some newWallet, timeLeft := PAYMENT_WINDOW,
                   status := Waiting, balance := Finite 0, txSignature := None,
                   error := None\<rparr>,
                 [KeypairGenerate])))"

definition resetFlow :: "state \<Rightarrow> state" where
  "resetFlow s = s\<lparr>status := Setup, tempWallet := None, error := None, txSignature := None\<rparr>"

text \<open>The first revision's \<open>generateNewWallet\<close> (run on mount and by its restart button).\<close>

definition generateNewWallet :: "keypair \<Rightarrow> state \<Rightarrow> state \<times> call list" where
  "generateNewWallet newWallet s =
     (s\<lparr>tempWallet := Some newWallet, timeLeft := PAYMENT_WINDOW, status := Waiting,
        balance := Finite 0, txSignature := None, error := None\<rparr>,
      [KeypairGenerate])"

subsection \<open>The two timers\<close>

text \<open>
  Both effects return at once unless a wallet exists and the status is \<open>waiting\<close>, and
  their cleanup clears the interval when either changes.
\<close>

definition timersActive :: "state \<Rightarrow> bool" where
  "timersActive s = (tempWallet s \<noteq> None \<and> status s = Waiting)"

text \<open>One firing of the one-second interval: the updater given to \<open>setTimeLeft\<close>.\<close>

definition countdown :: "state \<Rightarrow> state" where
  "countdown s =
     (if timeLeft s \<le> 1 then s\<lparr>status := Expired, timeLeft := 0\<rparr>
      else s\<lparr>timeLeft := timeLeft s - 1\<rparr>)"

subsection \<open>checkBalance\<close>

text \<open>
  What a suspended invocation of \<open>checkBalance\<close> waits for, with the variables of its
  closure that the rest of the invocation still reads: the wallet, the seller address
  and the amount text as they were when the effect created the closure.
\<close>

datatype continuation =
    AwaitGetBalance keypair string string
  | AwaitSendTransaction
  | AwaitConfirmTransaction string

text \<open>The inner and the outer \<open>catch\<close>.\<close>

definition forwardFailed :: "string \<Rightarrow> state \<Rightarrow> state" where
  "forwardFailed message s =
     s\<lparr>error := Some (''Failed to forward payment: '' @ message), status := Waiting\<rparr>"

definition checkFailed :: "string \<Rightarrow> state \<Rightarrow> state" where
  "checkFailed message s = s\<lparr>error := Some (''Failed to check balance: '' @ message)\<rparr>"

text \<open>\<open>balance / LAMPORTS_PER_SOL\<close>.\<close>

definition balanceInSol :: "int \<Rightarrow> number" where
  "balanceInSol lamports = toDouble (of_int lamports / of_int LAMPORTS_PER_SOL)"

text \<open>
  From the answer of \<open>getBalance\<close> (\<open>lamports\<close>) to the next \<open>await\<close>.
  \<open>requiredAmount\<close> is \<open>parseFloat(amount)\<close> in the second revision and
  \<open>REQUIRED_AMOUNT\<close> in the first.
\<close>

definition gotBalance ::
  "library \<Rightarrow> keypair \<Rightarrow> string \<Rightarrow> number \<Rightarrow> int \<Rightarrow> state
     \<Rightarrow> state \<times> call list \<times> continuation option" where
  "gotBalance lib wallet seller requiredAmount lamports s =
     (let s1 = s\<lparr>balance := balanceInSol lamports\<rparr>
      in if num_ge (balanceInSol lamports) requiredAmount then
           (let s2 = s1\<lparr>status := Received\<rparr>\<lparr>status := Forwarding\<rparr> in
            case newPublicKey lib seller of
              Inl message \<Rightarrow> (forwardFailed message s2, [], None)
            | Inr toPubkey \<Rightarrow>
                (case transferThrows lib (publicKey wallet) toPubkey (lamports - 5000) of
                   Some message \<Rightarrow>
                     (forwardFailed message s2,
                      [SystemProgramTransfer (publicKey wallet) toPubkey (lamports - 5000)],
                      None)
                 | None \<Rightarrow>
                     (s2,
                      [SystemProgramTransfer (publicKey wallet) toPubkey (lamports - 5000),
                       SendTransaction (publicKey wallet) toPubkey (lamports - 5000)],
                      Some AwaitSendTransaction)))
         else (s1, [], None))"

text \<open>The three resumptions of the second revision's \<open>checkBalance\<close>.\<close>

definition afterGetBalance ::
  "library \<Rightarrow> keypair \<Rightarrow> string \<Rightarrow> string \<Rightarrow> string + int \<Rightarrow> state
     \<Rightarrow> state \<times> call list \<times> continuation option" where
  "afterGetBalance lib wallet seller amountText answer s =
     (case answer of
        Inl message \<Rightarrow> (checkFailed message s, [], None)
      | Inr lamports \<Rightarrow> gotBalance lib wallet seller (parseFloat lib amountText) lamports s)"

definition afterSendTransaction ::
  "string + string \<Rightarrow> state \<Rightarrow> state \<times> call list \<times> continuation option" where
  "afterSendTransaction answer s =
     (case answer of
        Inl message \<Rightarrow> (forwardFailed message s, [], None)
      | Inr signature \<Rightarrow>
          (s, [ConfirmTransaction signature], Some (AwaitConfirmTransaction signature)))"

definition afterConfirmTransaction ::
  "string \<Rightarrow> string + unit \<Rightarrow> state \<Rightarrow> state \<times> call list \<times> continuation option" where
  "afterConfirmTransaction signature answer s =
     (case answer of
        Inl message \<Rightarrow> (forwardFailed message s, [], None)
      | Inr _ \<Rightarrow> (s\<lparr>txSignature := Some signature, status := Forwarded\<rparr>, [], None))"


subsection \<open>The page as a transition system\<close>

text \<open>
  A configuration is the component state, the suspended invocations of
  \<open>checkBalance\<close> (numbered in the order they began) and the calls made so far.
\<close>

record config =
  ui :: state
  inflight :: "nat \<Rightarrow> continuation option"
  started :: nat
  calls :: "call list"

datatype event =
    ClickStart keypair
  | ClickReset
  | CountdownTick
  | PollTick
  | GetBalanceSettles nat "string + int"
  | SendTransactionSettles nat "string + string"
  | ConfirmTransactionSettles nat "string + unit"

definition mount :: "state \<Rightarrow> config" where
  "mount s = \<lparr> ui = s, inflight = (\<lambda>_. None), started = 0, calls = [] \<rparr>"

definition resume :: "nat \<Rightarrow> state \<times> call list \<times> continuation option \<Rightarrow> config \<Rightarrow> config" where
  "resume i r c =
     (case r of (s, cs, k) \<Rightarrow>
        c\<lparr>ui := s, calls := calls c @ cs, inflight := (inflight c)(i := k)\<rparr>)"

text \<open>
  \<open>step\<close> is \<open>None\<close> where the event cannot happen: the start button is rendered only
  in \<open>setup\<close>, the restart button only in \<open>forwarded\<close> and \<open>expired\<close>, the intervals exist
  only while \<open>timersActive\<close>, and a call settles only if an invocation awaits it.
\<close>

fun step :: "library \<Rightarrow> event \<Rightarrow> config \<Rightarrow> config option" where
  "step lib (ClickStart newWallet) c =
     (if status (ui c) = Setup
      then (case startPaymentFlow lib newWallet (ui c) of
              (s, cs) \<Rightarrow> Some (c\<lparr>ui := s, calls := calls c @ cs\<rparr>))
      else None)"
| "step lib ClickReset c =
     (if status (ui c) = Forwarded \<or> status (ui c) = Expired
      then Some (c\<lparr>ui := resetFlow (ui c)\<rparr>)
      else None)"
| "step lib CountdownTick c =
     (if timersActive (ui c) then Some (c\<lparr>ui := countdown (ui c)\<rparr>) else None)"
| "step lib PollTick c =
     (case tempWallet (ui c) of
        None \<Rightarrow> None
      | Some wallet \<Rightarrow>
          if status (ui c) = Waiting
          then Some (c\<lparr>inflight := (inflight c)(started c \<mapsto>
                          AwaitGetBalance wallet (sellerAddress (ui c)) (amount (ui c))),
                       started := started c + 1,
                       calls := calls c @ [GetBalance (publicKey wallet)]\<rparr>)
          else None)"
| "step lib (GetBalanceSettles i answer) c =
     (case inflight c i of
        Some (AwaitGetBalance wallet seller amountText) \<Rightarrow>
          Some (resume i (afterGetBalance lib wallet seller amountText answer (ui c)) c)
      | _ \<Rightarrow> None)"
| "step lib (SendTransactionSettles i answer) c =
     (case inflight c i of
        Some AwaitSendTransaction \<Rightarrow> Some (resume i (afterSendTransaction answer (ui c)) c)
      | _ \<Rightarrow> None)"
| "step lib (ConfirmTransactionSettles i answer) c =
     (case inflight c i of
        Some (AwaitConfirmTransaction signature) \<Rightarrow>
          Some (resume i (afterConfirmTransaction signature answer (ui c)) c)
      | _ \<Rightarrow> None)"

fun run :: "library \<Rightarrow> event list \<Rightarrow> config \<Rightarrow> config option" where
  "run lib [] c = Some c"
| "run lib (e # es) c = (case step lib e c of None \<Rightarrow> None | Some c' \<Rightarrow> run lib es c')"

text \<open>The forward calls among the calls made.\<close>

fun isTransfer :: "call \<Rightarrow> bool" where
  "isTransfer (SystemProgramTransfer _ _ _) = True"
| "isTransfer _ = False"

definition transfers :: "call list \<Rightarrow> call list" where
  "transfers cs = filter isTransfer cs"

text \<open>The transactions handed to \<open>sendTransaction\<close> among the calls made.\<close>

fun isSend :: "call \<Rightarrow> bool" where
  "isSend (SendTransaction _ _ _) = True"
| "isSend _ = False"

definition sends :: "call list \<Rightarrow> call list" where
  "sends cs = filter isSend cs"

definition sent :: "config \<Rightarrow> call list" where
  "sent c = sends (calls c)"

subsection \<open>Observations on runs\<close>

text \<open>What the examples read off a configuration.\<close>

definition snapshot :: "config \<Rightarrow> status \<times> number \<times> string option \<times> call list" where
  "snapshot c = (status (ui c), balance (ui c), error (ui c), transfers (calls c))"

text \<open>The invocations of \<open>checkBalance\<close> begun so far, in order: what each waits for
  (\<open>None\<close> once it has returned).\<close>

definition suspended :: "config \<Rightarrow> continuation option list" where
  "suspended c = map (inflight c) [0 ..< started c]"

definition keyHeld :: "config \<Rightarrow> status \<times> keypair option" where
  "keyHeld c = (status (ui c), tempWallet (ui c))"

text \<open>No invocation is suspended inside the forward (at \<open>sendTransaction\<close> or at
  \<open>confirmTransaction\<close>).\<close>

fun awaitsBalance :: "continuation option \<Rightarrow> bool" where
  "awaitsBalance None = True"
| "awaitsBalance (Some (AwaitGetBalance _ _ _)) = True"
| "awaitsBalance (Some _) = False"

definition noForward :: "config \<Rightarrow> bool" where
  "noForward c = (\<forall>i. awaitsBalance (inflight c i))"

text \<open>
  The events of a session to which no sufficient balance is reported: the two timers,
  and answers of \<open>getBalance\<close> that are a failure or a balance below the amount the
  invocation compares it with.
\<close>

fun quiet :: "library \<Rightarrow> config \<Rightarrow> event \<Rightarrow> bool" where
  "quiet lib c CountdownTick = True"
| "quiet lib c PollTick = True"
| "quiet lib c (GetBalanceSettles i (Inl message)) = True"
| "quiet lib c (GetBalanceSettles i (Inr lamports)) =
     (case inflight c i of
        Some (AwaitGetBalance wallet seller amountText) \<Rightarrow>
          \<not> num_ge (balanceInSol lamports) (parseFloat lib amountText)
      | _ \<Rightarrow> False)"
| "quiet lib c _ = False"

text \<open>Every event of the list can happen, and is quiet where it happens.\<close>

fun quietRun :: "library \<Rightarrow> event list \<Rightarrow> config \<Rightarrow> bool" where
  "quietRun lib [] c = True"
| "quietRun lib (e # es) c =
     (quiet lib c e \<and> (case step lib e c of None \<Rightarrow> False | Some c' \<Rightarrow> quietRun lib es c'))"

fun isTick :: "event \<Rightarrow> bool" where
  "isTick CountdownTick = True"
| "isTick _ = False"

text \<open>The balance shown after the events: the last one \<open>getBalance\<close> answered.\<close>

fun lastPolled :: "event list \<Rightarrow> number \<Rightarrow> number" where
  "lastPolled [] b = b"
| "lastPolled (GetBalanceSettles i (Inr lamports) # es) b = lastPolled es (balanceInSol lamports)"
| "lastPolled (e # es) b = lastPolled es b"

subsection \<open>A library for the examples\<close>

text \<open>
  An instance of the parameters on which the examples below are evaluated: it parses
  three amount texts (to the nearest double), accepts the default seller address only,
  and its \<open>SystemProgram.transfer\<close> throws for a negative amount.
\<close>

definition exampleLibrary :: library where
  "exampleLibrary = \<lparr>
     parseFloat = (\<lambda>v. if v = ''0.01'' then toDouble (1 / 100)
                       else if v = ''0.000001'' then toDouble (1 / 1000000)
                       else if v = ''250'' then toDouble 250
                       else NaN),
     newPublicKey = (\<lambda>a. if a = DEFAULT_SELLER_ADDRESS then Inr a
                         else Inl ''Invalid public key input''),
     transferThrows = (\<lambda>_ _ n. if n < 0 then Some ''lamports out of range'' else None) \<rparr>"

definition exampleWallet :: keypair where
  "exampleWallet = \<lparr> publicKey = ''EphemeralAddress'', secretKey = ''secret'' \<rparr>"

section \<open>Rounding to a double: examples\<close>

text \<open>
  The doubles JavaScript shows as 0.1 and 0.01, the tie at \<open>2^53 + 1\<close>, and the balance
  of 10000000 lamports in SOL, which is the double of the amount text 0.01.
\<close>

lemma toDouble_examples:
  "toDouble (1 / 10) = Finite (3602879701896397 / 36028797018963968)"
  "toDouble (1 / 100) = Finite (5764607523034235 / 576460752303423488)"
  "toDouble 9007199254740993 = Finite 9007199254740992"
  "balanceInSol 10000000 = toDouble (1 / 100)"
  by code_simp+

section \<open>Start validation\<close>

text \<open>
  Claim C10. Start validation stops at the first failure, the address first: when the
  seller address is invalid the amount is not looked at, so whatever the amount text is
  (valid or not), only the address error is set, the amount error is left unset, and
  nothing else of the state changes and no call is made.
\<close>

theorem C10_address_checked_first:
  "\<not> validateAddress lib (sellerAddress s) \<Longrightarrow>
   startPaymentFlow lib w s =
     (s\<lparr>addressError := Some ''Invalid Solana address'', amountError := None\<rparr>, [])"
  by (simp add: startPaymentFlow_def)

theorem C10_address_checked_first_witness:
  "\<not> validateAddress exampleLibrary ''not an address'' \<and>
   validateAmount exampleLibrary ''abc'' \<noteq> None \<and>
   amountError (fst (startPaymentFlow exampleLibrary exampleWallet
      (initial\<lparr>sellerAddress := ''not an address'', amount := ''abc'',
               amountError := Some ''stale''\<rparr>))) = None \<and>
   addressError (fst (startPaymentFlow exampleLibrary exampleWallet
      (initial\<lparr>sellerAddress := ''not an address'', amount := ''abc'',
               amountError := Some ''stale''\<rparr>))) = Some ''Invalid Solana address''"
proof -
  have h: "\<not> validateAddress exampleLibrary
      (sellerAddress (initial\<lparr>sellerAddress := ''not an address'', amount := ''abc'',
               amountError := Some ''stale''\<rparr>))"
    by (simp add: validateAddress_def exampleLibrary_def DEFAULT_SELLER_ADDRESS_def)
  have a: "validateAmount exampleLibrary ''abc'' \<noteq> None"
    by (simp add: validateAmount_def exampleLibrary_def isNaN_def)
  show ?thesis
    using h a C10_address_checked_first [OF h, of exampleWallet] by simp
qed

lemma validateAmount_invalid:
  "(validateAmount lib v \<noteq> None) =
   (isNaN (parseFloat lib v) \<or> num_le (parseFloat lib v) (Finite 0) \<or>
    num_gt (parseFloat lib v) (Finite 100))"
  by (simp add: validateAmount_def Let_def)

text \<open>
  Claim C4. A click on the start button (the page shows it in \<open>setup\<close> only) with an
  address that \<open>new PublicKey\<close> rejects, or with an amount text that parses to NaN, to a
  number \<open><= 0\<close> or to a number \<open>> 100\<close>, leaves the status at \<open>setup\<close>; it makes no
  call (no \<open>Keypair.generate\<close>), sets no wallet, leaves the time and the timers alone
  (they stay off), and records the error of the field that failed first: the address
  error if the address is invalid, else the amount error.
\<close>

theorem C4_invalid_start_rejected:
  assumes "status (ui c) = Setup"
    and "\<not> validateAddress lib (sellerAddress (ui c)) \<or>
         isNaN (parseFloat lib (amount (ui c))) \<or>
         num_le (parseFloat lib (amount (ui c))) (Finite 0) \<or>
         num_gt (parseFloat lib (amount (ui c))) (Finite 100)"
  shows "\<exists>c'. step lib (ClickStart newWallet) c = Some c' \<and>
           status (ui c') = Setup \<and>
           calls c' = calls c \<and>
           tempWallet (ui c') = tempWallet (ui c) \<and>
           timeLeft (ui c') = timeLeft (ui c) \<and>
           \<not> timersActive (ui c') \<and>
           inflight c' = inflight c \<and>
           (if validateAddress lib (sellerAddress (ui c))
            then addressError (ui c') = None \<and>
                 amountError (ui c') = validateAmount lib (amount (ui c)) \<and>
                 amountError (ui c') \<noteq> None
            else addressError (ui c') = Some ''Invalid Solana address'' \<and>
                 amountError (ui c') = None)"
proof (cases "validateAddress lib (sellerAddress (ui c))")
  case False
  with assms(1) show ?thesis
    by (simp add: startPaymentFlow_def timersActive_def)
next
  case True
  with assms(2) have "validateAmount lib (amount (ui c)) \<noteq> None"
    using validateAmount_invalid [of lib "amount (ui c)"] by blast
  then obtain e where "validateAmount lib (amount (ui c)) = Some e"
    by auto
  with True assms(1) show ?thesis
    by (simp add: startPaymentFlow_def timersActive_def)
qed

theorem C4_invalid_start_rejected_witness:
  "status (ui (mount (initial\<lparr>amount := ''250''\<rparr>))) = Setup \<and>
   num_gt (parseFloat exampleLibrary (amount (ui (mount (initial\<lparr>amount := ''250''\<rparr>)))))
     (Finite 100) \<and>
   (\<exists>c'. step exampleLibrary (ClickStart exampleWallet)
            (mount (initial\<lparr>amount := ''250''\<rparr>)) = Some c' \<and>
      status (ui c') = Setup \<and> calls c' = [] \<and> tempWallet (ui c') = None \<and>
      addressError (ui c') = None \<and>
      amountError (ui c') = Some ''Amount must be less than or equal to 100 SOL'')"
proof -
  let ?c = "mount (initial\<lparr>amount := ''250''\<rparr>)"
  have s: "status (ui ?c) = Setup"
    by (simp add: mount_def initial_def)
  have g: "num_gt (parseFloat exampleLibrary (amount (ui ?c))) (Finite 100)"
    by code_simp
  have v: "validateAddress exampleLibrary (sellerAddress (ui ?c))"
    by (simp add: mount_def initial_def exampleLibrary_def validateAddress_def)
  have a: "validateAmount exampleLibrary (amount (ui ?c)) =
      Some ''Amount must be less than or equal to 100 SOL''"
    by code_simp
  have m: "calls ?c = []" "tempWallet (ui ?c) = None"
    by (simp_all add: mount_def initial_def)
  from C4_invalid_start_rejected [of ?c exampleLibrary exampleWallet] s g v a m
  show ?thesis by auto
qed

section \<open>A forward that fails\<close>

lemma sends_append [simp]: "sends (xs @ ys) = sends xs @ sends ys"
  by (simp add: sends_def)

text \<open>
  Claim C3. A forward fails in the inner \<open>try\<close>: after an \<open>await\<close>, when
  \<open>sendTransaction\<close> or \<open>confirmTransaction\<close> rejects, or before the first one, when
  \<open>new PublicKey\<close> or \<open>SystemProgram.transfer\<close> throws. Each time the status becomes
  \<open>waiting\<close>, not \<open>forwarded\<close>, and the error is set to the description of the
  failure; the time left and the transaction signature are as before, the balance is
  the one the poll observed, nothing is handed to \<open>sendTransaction\<close>, and the
  invocation has returned.
\<close>

theorem C3_failed_forward_returns_to_waiting:
  "(inflight c i = Some k \<and>
    ((k = AwaitSendTransaction \<and> e = SendTransactionSettles i (Inl message)) \<or>
     (k = AwaitConfirmTransaction signature \<and>
      e = ConfirmTransactionSettles i (Inl message))) \<longrightarrow>
      (\<exists>c'. step lib e c = Some c' \<and>
         ui c' = (ui c)\<lparr>error := Some (''Failed to forward payment: '' @ message),
                       status := Waiting\<rparr> \<and>
         status (ui c') = Waiting \<and>
         error (ui c') = Some (''Failed to forward payment: '' @ message) \<and>
         timeLeft (ui c') = timeLeft (ui c) \<and>
         balance (ui c') = balance (ui c) \<and>
         txSignature (ui c') = txSignature (ui c) \<and>
         calls c' = calls c \<and>
         inflight c' i = None)) \<and>
   (inflight c i = Some (AwaitGetBalance wallet seller amountText) \<and>
    num_ge (balanceInSol lamports) (parseFloat lib amountText) \<and>
    newPublicKey lib seller = Inl message \<longrightarrow>
      (\<exists>c'. step lib (GetBalanceSettles i (Inr lamports)) c = Some c' \<and>
         ui c' = (ui c)\<lparr>balance := balanceInSol lamports,
                       error := Some (''Failed to forward payment: '' @ message),
                       status := Waiting\<rparr> \<and>
         calls c' = calls c \<and>
         inflight c' i = None)) \<and>
   (inflight c i = Some (AwaitGetBalance wallet seller amountText) \<and>
    num_ge (balanceInSol lamports) (parseFloat lib amountText) \<and>
    newPublicKey lib seller = Inr toPubkey \<and>
    transferThrows lib (publicKey wallet) toPubkey (lamports - 5000) = Some message \<longrightarrow>
      (\<exists>c'. step lib (GetBalanceSettles i (Inr lamports)) c = Some c' \<and>
         ui c' = (ui c)\<lparr>balance := balanceInSol lamports,
                       error := Some (''Failed to forward payment: '' @ message),
                       status := Waiting\<rparr> \<and>
         calls c' = calls c @
           [SystemProgramTransfer (publicKey wallet) toPubkey (lamports - 5000)] \<and>
         sends (calls c') = sends (calls c) \<and>
         inflight c' i = None))"
proof -
  have p1: "inflight c i = Some k \<and>
    ((k = AwaitSendTransaction \<and> e = SendTransactionSettles i (Inl message)) \<or>
     (k = AwaitConfirmTransaction signature \<and>
      e = ConfirmTransactionSettles i (Inl message))) \<longrightarrow>
      (\<exists>c'. step lib e c = Some c' \<and>
         ui c' = (ui c)\<lparr>error := Some (''Failed to forward payment: '' @ message),
                       status := Waiting\<rparr> \<and>
         status (ui c') = Waiting \<and>
         error (ui c') = Some (''Failed to forward payment: '' @ message) \<and>
         timeLeft (ui c') = timeLeft (ui c) \<and>
         balance (ui c') = balance (ui c) \<and>
         txSignature (ui c') = txSignature (ui c) \<and>
         calls c' = calls c \<and>
         inflight c' i = None)"
    by (auto simp: resume_def afterSendTransaction_def afterConfirmTransaction_def
        forwardFailed_def)
  have p2: "inflight c i = Some (AwaitGetBalance wallet seller amountText) \<and>
    num_ge (balanceInSol lamports) (parseFloat lib amountText) \<and>
    newPublicKey lib seller = Inl message \<longrightarrow>
      (\<exists>c'. step lib (GetBalanceSettles i (Inr lamports)) c = Some c' \<and>
         ui c' = (ui c)\<lparr>balance := balanceInSol lamports,
                       error := Some (''Failed to forward payment: '' @ message),
                       status := Waiting\<rparr> \<and>
         calls c' = calls c \<and>
         inflight c' i = None)"
    by (simp add: resume_def afterGetBalance_def gotBalance_def forwardFailed_def)
  have p3: "inflight c i = Some (AwaitGetBalance wallet seller amountText) \<and>
    num_ge (balanceInSol lamports) (parseFloat lib amountText) \<and>
    newPublicKey lib seller = Inr toPubkey \<and>
    transferThrows lib (publicKey wallet) toPubkey (lamports - 5000) = Some message \<longrightarrow>
      (\<exists>c'. step lib (GetBalanceSettles i (Inr lamports)) c = Some c' \<and>
         ui c' = (ui c)\<lparr>balance := balanceInSol lamports,
                       error := Some (''Failed to forward payment: '' @ message),
                       status := Waiting\<rparr> \<and>
         calls c' = calls c @
           [SystemProgramTransfer (publicKey wallet) toPubkey (lamports - 5000)] \<and>
         sends (calls c') = sends (calls c) \<and>
         inflight c' i = None)"
    by (simp add: resume_def afterGetBalance_def gotBalance_def forwardFailed_def sends_def)
  show ?thesis
    by (rule conjI, fact p1, rule conjI, fact p2, fact p3)
qed

theorem C3_failed_forward_returns_to_waiting_witness:
  "\<exists>c c' d d'. run exampleLibrary
            [ClickStart exampleWallet, CountdownTick, PollTick,
             GetBalanceSettles 0 (Inr 10000000)]
            (mount initial) = Some c \<and>
     inflight c 0 = Some AwaitSendTransaction \<and>
     status (ui c) = Forwarding \<and> timeLeft (ui c) = 299 \<and>
     balance (ui c) = balanceInSol 10000000 \<and>
     step exampleLibrary (SendTransactionSettles 0 (Inl ''blockhash not found'')) c = Some c' \<and>
     status (ui c') = Waiting \<and>
     error (ui c') = Some ''Failed to forward payment: blockhash not found'' \<and>
     timeLeft (ui c') = 299 \<and> balance (ui c') = balanceInSol 10000000 \<and>
     run exampleLibrary [ClickStart exampleWallet, CountdownTick, PollTick]
            (mount (initial\<lparr>amount := ''0.000001''\<rparr>)) = Some d \<and>
     inflight d 0 = Some (AwaitGetBalance exampleWallet DEFAULT_SELLER_ADDRESS ''0.000001'') \<and>
     num_ge (balanceInSol 2000) (parseFloat exampleLibrary ''0.000001'') \<and>
     step exampleLibrary (GetBalanceSettles 0 (Inr 2000)) d = Some d' \<and>
     status (ui d') = Waiting \<and>
     error (ui d') = Some ''Failed to forward payment: lamports out of range'' \<and>
     timeLeft (ui d') = 299 \<and> balance (ui d') = balanceInSol 2000 \<and>
     sends (calls d') = [] \<and> inflight d' 0 = None"
proof -
  have "case run exampleLibrary
            [ClickStart exampleWallet, CountdownTick, PollTick,
             GetBalanceSettles 0 (Inr 10000000)]
            (mount initial) of
          None \<Rightarrow> False
        | Some c \<Rightarrow> inflight c 0 = Some AwaitSendTransaction \<and> status (ui c) = Forwarding \<and>
            timeLeft (ui c) = 299 \<and> balance (ui c) = balanceInSol 10000000"
    by code_simp
  then obtain c where c: "run exampleLibrary
            [ClickStart exampleWallet, CountdownTick, PollTick,
             GetBalanceSettles 0 (Inr 10000000)]
            (mount initial) = Some c"
      "inflight c 0 = Some AwaitSendTransaction" "status (ui c) = Forwarding"
      "timeLeft (ui c) = 299" "balance (ui c) = balanceInSol 10000000"
    by (auto split: option.splits)
  from C3_failed_forward_returns_to_waiting
    [where c = c and i = 0 and k = AwaitSendTransaction and
      e = "SendTransactionSettles 0 (Inl ''blockhash not found'')" and
      message = "''blockhash not found''" and lib = exampleLibrary] c
  obtain c' where c': "step exampleLibrary
        (SendTransactionSettles 0 (Inl ''blockhash not found'')) c = Some c'"
      "status (ui c') = Waiting"
      "error (ui c') = Some ''Failed to forward payment: blockhash not found''"
      "timeLeft (ui c') = 299" "balance (ui c') = balanceInSol 10000000"
    by auto
  have "case run exampleLibrary [ClickStart exampleWallet, CountdownTick, PollTick]
            (mount (initial\<lparr>amount := ''0.000001''\<rparr>)) of
          None \<Rightarrow> False
        | Some d \<Rightarrow>
            inflight d 0 =
              Some (AwaitGetBalance exampleWallet DEFAULT_SELLER_ADDRESS ''0.000001'') \<and>
            timeLeft (ui d) = 299 \<and> sends (calls d) = []"
    by code_simp
  then obtain d where d: "run exampleLibrary [ClickStart exampleWallet, CountdownTick, PollTick]
            (mount (initial\<lparr>amount := ''0.000001''\<rparr>)) = Some d"
      "inflight d 0 = Some (AwaitGetBalance exampleWallet DEFAULT_SELLER_ADDRESS ''0.000001'')"
      "timeLeft (ui d) = 299" "sends (calls d) = []"
    by (auto split: option.splits)
  have g: "num_ge (balanceInSol 2000) (parseFloat exampleLibrary ''0.000001'')"
      "newPublicKey exampleLibrary DEFAULT_SELLER_ADDRESS = Inr DEFAULT_SELLER_ADDRESS"
      "transferThrows exampleLibrary (publicKey exampleWallet) DEFAULT_SELLER_ADDRESS
         (2000 - 5000) = Some ''lamports out of range''"
    by code_simp+
  note sync = C3_failed_forward_returns_to_waiting
    [where c = d and i = 0 and wallet = exampleWallet and seller = DEFAULT_SELLER_ADDRESS and
      amountText = "''0.000001''" and lamports = 2000 and lib = exampleLibrary and
      toPubkey = DEFAULT_SELLER_ADDRESS and message = "''lamports out of range''",
      THEN conjunct2, THEN conjunct2, rule_format]
  from sync d(2) g
  obtain d' where d0: "step exampleLibrary (GetBalanceSettles 0 (Inr 2000)) d = Some d'"
      "ui d' = (ui d)\<lparr>balance := balanceInSol 2000,
                       error := Some (''Failed to forward payment: '' @ ''lamports out of range''),
                       status := Waiting\<rparr>"
      "sends (calls d') = sends (calls d)" "inflight d' 0 = None"
    by blast
  from d0(2,3) d(3,4) have d': "status (ui d') = Waiting"
      "error (ui d') = Some ''Failed to forward payment: lamports out of range''"
      "timeLeft (ui d') = 299" "balance (ui d') = balanceInSol 2000"
      "sends (calls d') = []"
    by simp_all
  from c c' d d0(1,4) d' g(1) show ?thesis by blast
qed

section \<open>Runs without a sufficient balance\<close>

lemma transfers_append [simp]: "transfers (xs @ ys) = transfers xs @ transfers ys"
  by (simp add: transfers_def)

lemma run_append:
  "run lib (es @ fs) c = (case run lib es c of None \<Rightarrow> None | Some c' \<Rightarrow> run lib fs c')"
  by (induction es arbitrary: c) (auto split: option.splits)

text \<open>One quiet event: what it changes.\<close>

lemma quiet_step:
  assumes "quiet lib c e" and "step lib e c = Some c'" and "noForward c"
  shows "noForward c' \<and> transfers (calls c') = transfers (calls c) \<and>
         tempWallet (ui c') = tempWallet (ui c) \<and>
         balance (ui c') = lastPolled [e] (balance (ui c)) \<and>
         (if e = CountdownTick then ui c' = countdown (ui c)
          else status (ui c') = status (ui c) \<and> timeLeft (ui c') = timeLeft (ui c))"
proof (cases e)
  case CountdownTick
  with assms show ?thesis
    by (auto simp: noForward_def countdown_def split: if_splits)
next
  case PollTick
  with assms show ?thesis
    by (auto simp: noForward_def transfers_def split: if_splits option.splits)
next
  case (GetBalanceSettles i answer)
  show ?thesis
  proof (cases answer)
    case (Inl message)
    with GetBalanceSettles assms show ?thesis
      by (auto simp: noForward_def resume_def afterGetBalance_def checkFailed_def
          split: option.splits continuation.splits)
  next
    case (Inr lamports)
    with GetBalanceSettles assms show ?thesis
      by (auto simp: noForward_def resume_def afterGetBalance_def gotBalance_def
          split: option.splits continuation.splits)
  qed
qed (use assms in simp_all)

lemma lastPolled_Cons: "lastPolled (e # es) b = lastPolled es (lastPolled [e] b)"
  by (cases "(e # es, b)" rule: lastPolled.cases) auto

lemma quiet_run_frame:
  "noForward c \<Longrightarrow> quietRun lib es c \<Longrightarrow>
   \<exists>c'. run lib es c = Some c' \<and> noForward c' \<and>
        transfers (calls c') = transfers (calls c) \<and>
        tempWallet (ui c') = tempWallet (ui c) \<and>
        balance (ui c') = lastPolled es (balance (ui c))"
proof (induction es arbitrary: c)
  case Nil
  then show ?case by simp
next
  case (Cons e es)
  from Cons.prems(2) obtain c1 where
    c1: "quiet lib c e" "step lib e c = Some c1" "quietRun lib es c1"
    by (auto split: option.splits)
  from quiet_step [OF c1(1,2) Cons.prems(1)]
  have q: "noForward c1" "transfers (calls c1) = transfers (calls c)"
      "tempWallet (ui c1) = tempWallet (ui c)"
      "balance (ui c1) = lastPolled [e] (balance (ui c))"
    by simp_all
  from Cons.IH [OF q(1) c1(3)] obtain c' where
    "run lib es c1 = Some c'" "noForward c'" "transfers (calls c') = transfers (calls c1)"
    "tempWallet (ui c') = tempWallet (ui c1)"
    "balance (ui c') = lastPolled es (balance (ui c1))"
    by blast
  with c1(2) q show ?case
    by (simp add: lastPolled_Cons [of e es])
qed

text \<open>Once expired, a quiet run has no tick left in it and stays expired.\<close>

lemma quiet_run_expired:
  "status (ui c) = Expired \<Longrightarrow> noForward c \<Longrightarrow> quietRun lib es c \<Longrightarrow>
   run lib es c = Some c' \<Longrightarrow>
   status (ui c') = Expired \<and> timeLeft (ui c') = timeLeft (ui c) \<and> filter isTick es = []"
proof (induction es arbitrary: c)
  case Nil
  then show ?case by simp
next
  case (Cons e es)
  from Cons.prems(3) obtain c1 where
    c1: "quiet lib c e" "step lib e c = Some c1" "quietRun lib es c1"
    by (auto split: option.splits)
  have ne: "e \<noteq> CountdownTick"
    using c1(2) Cons.prems(1) by (auto simp: timersActive_def)
  from quiet_step [OF c1(1,2) Cons.prems(2)] ne
  have q: "noForward c1" "status (ui c1) = Expired" "timeLeft (ui c1) = timeLeft (ui c)"
    using Cons.prems(1) by simp_all
  from Cons.prems(4) c1(2) have r: "run lib es c1 = Some c'" by simp
  from Cons.IH [OF q(2) q(1) c1(3) r] q ne show ?case
    by (cases e) simp_all
qed

text \<open>
  From \<open>waiting\<close>, a quiet run ends expired exactly if it holds as many ticks as there
  were seconds left (one tick at least), and else ends waiting.
\<close>

lemma quiet_run_waiting:
  "status (ui c) = Waiting \<Longrightarrow> noForward c \<Longrightarrow> quietRun lib es c \<Longrightarrow>
   run lib es c = Some c' \<Longrightarrow>
   (if max 1 (timeLeft (ui c)) \<le> int (length (filter isTick es))
    then status (ui c') = Expired \<and> timeLeft (ui c') = 0
    else status (ui c') = Waiting \<and>
         timeLeft (ui c') = timeLeft (ui c) - int (length (filter isTick es)))"
proof (induction es arbitrary: c)
  case Nil
  then show ?case by simp
next
  case (Cons e es)
  from Cons.prems(3) obtain c1 where
    c1: "quiet lib c e" "step lib e c = Some c1" "quietRun lib es c1"
    by (auto split: option.splits)
  from Cons.prems(4) c1(2) have r: "run lib es c1 = Some c'" by simp
  note q = quiet_step [OF c1(1,2) Cons.prems(2)]
  show ?case
  proof (cases "e = CountdownTick")
    case False
    with q have s: "noForward c1" "status (ui c1) = Waiting"
        "timeLeft (ui c1) = timeLeft (ui c)"
      using Cons.prems(1) by simp_all
    from False have "filter isTick (e # es) = filter isTick es"
      by (cases e) simp_all
    with Cons.IH [OF s(2) s(1) c1(3) r] s(3) show ?thesis by simp
  next
    case True
    with q have u: "noForward c1" "ui c1 = countdown (ui c)" by simp_all
    show ?thesis
    proof (cases "timeLeft (ui c) \<le> 1")
      case True
      with u have e1: "status (ui c1) = Expired" "timeLeft (ui c1) = 0"
        by (simp_all add: countdown_def)
      from quiet_run_expired [OF e1(1) u(1) c1(3) r] e1 \<open>e = CountdownTick\<close> True
      show ?thesis by simp
    next
      case False
      with u Cons.prems(1) have w: "status (ui c1) = Waiting"
          "timeLeft (ui c1) = timeLeft (ui c) - 1"
        by (simp_all add: countdown_def)
      from Cons.IH [OF w(1) u(1) c1(3) r] w(2) \<open>e = CountdownTick\<close> False
      show ?thesis by (simp split: if_splits)
    qed
  qed
qed

section \<open>Expiry\<close>

text \<open>
  Claim C7, as the code has it. Take a session in \<open>waiting\<close> with no forward in
  flight, and any sequence of timer firings and \<open>getBalance\<close> answers in which no
  answer meets the amount, holding as many countdown ticks as there were seconds left
  (answers that come after the last tick included). Then the sequence runs to its end,
  the status is \<open>expired\<close> with no time left, the balance is the last one polled (the
  one before, if none was), no forward call was made, none is in flight, and both timers
  are off; and if no balance check is in flight any more, nothing can happen but a
  click on the restart button.
\<close>

theorem C7_countdown_expires:
  assumes "status (ui c) = Waiting" and "noForward c" and "quietRun lib es c"
    and "max 1 (timeLeft (ui c)) \<le> int (length (filter isTick es))"
  shows "\<exists>c'. run lib es c = Some c' \<and>
           status (ui c') = Expired \<and> timeLeft (ui c') = 0 \<and>
           balance (ui c') = lastPolled es (balance (ui c)) \<and>
           transfers (calls c') = transfers (calls c) \<and>
           noForward c' \<and>
           step lib CountdownTick c' = None \<and> step lib PollTick c' = None \<and>
           ((\<forall>i. inflight c' i = None) \<longrightarrow>
              (\<forall>e d. step lib e c' = Some d \<longrightarrow> e = ClickReset))"
proof -
  from quiet_run_frame [OF assms(2,3)] obtain c' where
    c': "run lib es c = Some c'" "noForward c'"
      "transfers (calls c') = transfers (calls c)"
      "balance (ui c') = lastPolled es (balance (ui c))"
    by blast
  from quiet_run_waiting [OF assms(1,2,3) c'(1)] assms(4)
  have e: "status (ui c') = Expired" "timeLeft (ui c') = 0"
    by simp_all
  from e(1) have t: "step lib CountdownTick c' = None" "step lib PollTick c' = None"
    by (simp_all add: timersActive_def split: option.splits)
  have "e = ClickReset" if "\<forall>i. inflight c' i = None" and "step lib e c' = Some d" for e d
    using that e(1) by (cases e) (auto simp: timersActive_def split: option.splits)
  with c' e t show ?thesis by blast
qed

theorem C7_countdown_expires_witness:
  "\<exists>c c'. step exampleLibrary (ClickStart exampleWallet) (mount initial) = Some c \<and>
     status (ui c) = Waiting \<and> timeLeft (ui c) = 300 \<and> balance (ui c) = Finite 0 \<and>
     noForward c \<and>
     quietRun exampleLibrary
       ([PollTick, GetBalanceSettles 0 (Inr 0)] @ replicate 300 CountdownTick) c \<and>
     run exampleLibrary
       ([PollTick, GetBalanceSettles 0 (Inr 0)] @ replicate 300 CountdownTick) c = Some c' \<and>
     status (ui c') = Expired \<and> balance (ui c') = Finite 0 \<and> transfers (calls c') = []"
proof -
  let ?es = "[PollTick, GetBalanceSettles 0 (Inr 0)] @ replicate 300 CountdownTick"
  have "case step exampleLibrary (ClickStart exampleWallet) (mount initial) of
          None \<Rightarrow> False
        | Some c \<Rightarrow> status (ui c) = Waiting \<and> timeLeft (ui c) = 300 \<and>
            balance (ui c) = Finite 0 \<and> transfers (calls c) = [] \<and>
            quietRun exampleLibrary ?es c \<and>
            int (length (filter isTick ?es)) = 300 \<and>
            lastPolled ?es (Finite 0) = Finite 0"
    by code_simp
  moreover have "case step exampleLibrary (ClickStart exampleWallet) (mount initial) of
          None \<Rightarrow> False
        | Some c \<Rightarrow> noForward c"
    by (simp add: mount_def initial_def startPaymentFlow_def noForward_def
        split: prod.splits)
  ultimately obtain c where
    c: "step exampleLibrary (ClickStart exampleWallet) (mount initial) = Some c"
      "status (ui c) = Waiting" "timeLeft (ui c) = 300" "balance (ui c) = Finite 0"
      "transfers (calls c) = []" "quietRun exampleLibrary ?es c"
      "int (length (filter isTick ?es)) = 300" "lastPolled ?es (Finite 0) = Finite 0"
      "noForward c"
    by (auto split: option.splits)
  from c(3,7) have "max 1 (timeLeft (ui c)) \<le> int (length (filter isTick ?es))"
    by simp
  from C7_countdown_expires [OF c(2) c(9) c(6) this] c
  show ?thesis by auto
qed

text \<open>
  Against the claim as stated: a balance check answers 0 and a second one begins; the
  countdown runs out before any answer met the amount, and the status is \<open>expired\<close>
  with the balance 0 and no forward made. The second check is answered afterwards with
  a sufficient balance: the status leaves \<open>expired\<close> for \<open>forwarding\<close> and the
  transfer is issued.
\<close>

theorem C7_expired_then_forwarded:
  "map_option snapshot
     (run exampleLibrary
        ([ClickStart exampleWallet, PollTick, GetBalanceSettles 0 (Inr 0), PollTick] @
         replicate 300 CountdownTick)
        (mount initial)) =
   Some (Expired, Finite 0, None, []) \<and>
   map_option snapshot
     (run exampleLibrary
        ([ClickStart exampleWallet, PollTick, GetBalanceSettles 0 (Inr 0), PollTick] @
         replicate 300 CountdownTick @ [GetBalanceSettles 1 (Inr 10000000)])
        (mount initial)) =
   Some (Forwarding, balanceInSol 10000000, None,
         [SystemProgramTransfer ''EphemeralAddress'' DEFAULT_SELLER_ADDRESS 9995000])"
  by code_simp

section \<open>The threshold\<close>

lemma toDouble_not_NaN: "toDouble q \<noteq> NaN"
  by (simp add: toDouble_def Let_def)

lemma num_ge_refl: "num_ge (balanceInSol n) (balanceInSol n)"
  using toDouble_not_NaN [of "of_int n / of_int LAMPORTS_PER_SOL"]
  by (cases "toDouble (of_int n / of_int LAMPORTS_PER_SOL)")
    (simp_all add: num_ge_def balanceInSol_def)

text \<open>
  Claim C2, as the code has it. In \<open>waiting\<close>, a poll (the interval fires and
  \<open>getBalance\<close> answers \<open>lamports\<close>) whose balance in SOL is \<open>>=\<close> the parsed amount,
  equality included, sets the balance and attempts the forward. If the transfer of
  \<open>lamports - 5000\<close> can be built, the poll leaves the status \<open>forwarding\<close> with the
  transaction handed to \<open>sendTransaction\<close>. If \<open>new PublicKey\<close> or
  \<open>SystemProgram.transfer\<close> throws, the same poll ends in \<open>waiting\<close> with the failure
  as the error and nothing sent. A poll whose balance is not \<open>>=\<close> the amount sets the
  balance and nothing else and makes no further call. Over any number of polls of the
  last kind, overlapping or not, with failing ones among them, the status stays
  \<open>waiting\<close> and no transfer is issued.
\<close>

theorem C2_threshold_decides:
  assumes "status (ui c) = Waiting" and "tempWallet (ui c) = Some wallet"
  shows "(num_ge (balanceInSol lamports) (parseFloat lib (amount (ui c))) \<longrightarrow>
            (\<exists>c'. run lib [PollTick, GetBalanceSettles (started c) (Inr lamports)] c = Some c' \<and>
               (case newPublicKey lib (sellerAddress (ui c)) of
                  Inl message \<Rightarrow>
                    ui c' = (ui c)\<lparr>balance := balanceInSol lamports,
                        error := Some (''Failed to forward payment: '' @ message),
                        status := Waiting\<rparr> \<and>
                    calls c' = calls c @ [GetBalance (publicKey wallet)] \<and>
                    inflight c' (started c) = None
                | Inr toPubkey \<Rightarrow>
                    (case transferThrows lib (publicKey wallet) toPubkey (lamports - 5000) of
                       Some message \<Rightarrow>
                         ui c' = (ui c)\<lparr>balance := balanceInSol lamports,
                             error := Some (''Failed to forward payment: '' @ message),
                             status := Waiting\<rparr> \<and>
                         calls c' = calls c @
                           [GetBalance (publicKey wallet),
                            SystemProgramTransfer (publicKey wallet) toPubkey
                              (lamports - 5000)] \<and>
                         inflight c' (started c) = None
                     | None \<Rightarrow>
                         ui c' = (ui c)\<lparr>balance := balanceInSol lamports,
                             status := Forwarding\<rparr> \<and>
                         calls c' = calls c @
                           [GetBalance (publicKey wallet),
                            SystemProgramTransfer (publicKey wallet) toPubkey
                              (lamports - 5000),
                            SendTransaction (publicKey wallet) toPubkey (lamports - 5000)] \<and>
                         inflight c' (started c) = Some AwaitSendTransaction)))) \<and>
         (parseFloat lib (amount (ui c)) = balanceInSol lamports \<longrightarrow>
            num_ge (balanceInSol lamports) (parseFloat lib (amount (ui c)))) \<and>
         (\<not> num_ge (balanceInSol lamports) (parseFloat lib (amount (ui c))) \<longrightarrow>
            (\<exists>c'. run lib [PollTick, GetBalanceSettles (started c) (Inr lamports)] c = Some c' \<and>
               ui c' = (ui c)\<lparr>balance := balanceInSol lamports\<rparr> \<and>
               calls c' = calls c @ [GetBalance (publicKey wallet)] \<and>
               inflight c' (started c) = None)) \<and>
         (noForward c \<and> quietRun lib es c \<and> filter isTick es = [] \<longrightarrow>
            (\<exists>c'. run lib es c = Some c' \<and> status (ui c') = Waiting \<and>
               transfers (calls c') = transfers (calls c) \<and>
               balance (ui c') = lastPolled es (balance (ui c))))"
proof -
  have p1: "num_ge (balanceInSol lamports) (parseFloat lib (amount (ui c))) \<longrightarrow>
            (\<exists>c'. run lib [PollTick, GetBalanceSettles (started c) (Inr lamports)] c = Some c' \<and>
               (case newPublicKey lib (sellerAddress (ui c)) of
                  Inl message \<Rightarrow>
                    ui c' = (ui c)\<lparr>balance := balanceInSol lamports,
                        error := Some (''Failed to forward payment: '' @ message),
                        status := Waiting\<rparr> \<and>
                    calls c' = calls c @ [GetBalance (publicKey wallet)] \<and>
                    inflight c' (started c) = None
                | Inr toPubkey \<Rightarrow>
                    (case transferThrows lib (publicKey wallet) toPubkey (lamports - 5000) of
                       Some message \<Rightarrow>
                         ui c' = (ui c)\<lparr>balance := balanceInSol lamports,
                             error := Some (''Failed to forward payment: '' @ message),
                             status := Waiting\<rparr> \<and>
                         calls c' = calls c @
                           [GetBalance (publicKey wallet),
                            SystemProgramTransfer (publicKey wallet) toPubkey
                              (lamports - 5000)] \<and>
                         inflight c' (started c) = None
                     | None \<Rightarrow>
                         ui c' = (ui c)\<lparr>balance := balanceInSol lamports,
                             status := Forwarding\<rparr> \<and>
                         calls c' = calls c @
                           [GetBalance (publicKey wallet),
                            SystemProgramTransfer (publicKey wallet) toPubkey
                              (lamports - 5000),
                            SendTransaction (publicKey wallet) toPubkey (lamports - 5000)] \<and>
                         inflight c' (started c) = Some AwaitSendTransaction)))"
    using assms
    by (simp add: resume_def afterGetBalance_def gotBalance_def forwardFailed_def
        split: sum.splits option.splits)
  have p2: "parseFloat lib (amount (ui c)) = balanceInSol lamports \<longrightarrow>
            num_ge (balanceInSol lamports) (parseFloat lib (amount (ui c)))"
    by (simp add: num_ge_refl)
  have p3: "\<not> num_ge (balanceInSol lamports) (parseFloat lib (amount (ui c))) \<longrightarrow>
            (\<exists>c'. run lib [PollTick, GetBalanceSettles (started c) (Inr lamports)] c = Some c' \<and>
               ui c' = (ui c)\<lparr>balance := balanceInSol lamports\<rparr> \<and>
               calls c' = calls c @ [GetBalance (publicKey wallet)] \<and>
               inflight c' (started c) = None)"
    using assms by (simp add: resume_def afterGetBalance_def gotBalance_def)
  have p4: "noForward c \<and> quietRun lib es c \<and> filter isTick es = [] \<longrightarrow>
            (\<exists>c'. run lib es c = Some c' \<and> status (ui c') = Waiting \<and>
               transfers (calls c') = transfers (calls c) \<and>
               balance (ui c') = lastPolled es (balance (ui c)))"
  proof
    assume q: "noForward c \<and> quietRun lib es c \<and> filter isTick es = []"
    then obtain c' where
      c': "run lib es c = Some c'" "transfers (calls c') = transfers (calls c)"
        "balance (ui c') = lastPolled es (balance (ui c))"
      using quiet_run_frame [of c lib es] by blast
    from quiet_run_waiting [OF assms(1) _ _ c'(1)] q
    have "status (ui c') = Waiting"
      by (simp split: if_splits)
    with c' show "\<exists>c'. run lib es c = Some c' \<and> status (ui c') = Waiting \<and>
               transfers (calls c') = transfers (calls c) \<and>
               balance (ui c') = lastPolled es (balance (ui c))"
      by simp
  qed
  show ?thesis
    by (rule conjI, fact p1, rule conjI, fact p2, rule conjI, fact p3, fact p4)
qed

theorem C2_threshold_decides_witness:
  "\<exists>c c1 c2 c3 d d1.
     step exampleLibrary (ClickStart exampleWallet) (mount initial) = Some c \<and>
     status (ui c) = Waiting \<and> tempWallet (ui c) = Some exampleWallet \<and>
     parseFloat exampleLibrary (amount (ui c)) = balanceInSol 10000000 \<and>
     run exampleLibrary [PollTick, GetBalanceSettles (started c) (Inr 10000000)] c = Some c1 \<and>
     status (ui c1) = Forwarding \<and>
     \<not> num_ge (balanceInSol 9999999) (parseFloat exampleLibrary (amount (ui c))) \<and>
     run exampleLibrary [PollTick, GetBalanceSettles (started c) (Inr 9999999)] c = Some c2 \<and>
     status (ui c2) = Waiting \<and> balance (ui c2) = balanceInSol 9999999 \<and>
     run exampleLibrary
       [PollTick, PollTick, GetBalanceSettles 1 (Inr 9999999),
        GetBalanceSettles 0 (Inl ''fetch failed'')]
       c = Some c3 \<and>
     status (ui c3) = Waiting \<and> transfers (calls c3) = [] \<and>
     step exampleLibrary (ClickStart exampleWallet)
       (mount (initial\<lparr>amount := ''0.000001''\<rparr>)) = Some d \<and>
     status (ui d) = Waiting \<and> tempWallet (ui d) = Some exampleWallet \<and>
     num_ge (balanceInSol 2000) (parseFloat exampleLibrary (amount (ui d))) \<and>
     run exampleLibrary [PollTick, GetBalanceSettles (started d) (Inr 2000)] d = Some d1 \<and>
     status (ui d1) = Waiting \<and>
     error (ui d1) = Some ''Failed to forward payment: lamports out of range''"
proof -
  let ?es = "[PollTick, PollTick, GetBalanceSettles 1 (Inr 9999999),
              GetBalanceSettles 0 (Inl ''fetch failed'')]"
  have "case step exampleLibrary (ClickStart exampleWallet) (mount initial) of
          None \<Rightarrow> False
        | Some c \<Rightarrow> status (ui c) = Waiting \<and> tempWallet (ui c) = Some exampleWallet \<and>
            parseFloat exampleLibrary (amount (ui c)) = balanceInSol 10000000 \<and>
            num_ge (balanceInSol 10000000) (parseFloat exampleLibrary (amount (ui c))) \<and>
            newPublicKey exampleLibrary (sellerAddress (ui c)) = Inr DEFAULT_SELLER_ADDRESS \<and>
            transferThrows exampleLibrary (publicKey exampleWallet) DEFAULT_SELLER_ADDRESS
              (10000000 - 5000) = None \<and>
            \<not> num_ge (balanceInSol 9999999) (parseFloat exampleLibrary (amount (ui c))) \<and>
            transfers (calls c) = [] \<and>
            quietRun exampleLibrary ?es c \<and> filter isTick ?es = []"
    by code_simp
  moreover have "case step exampleLibrary (ClickStart exampleWallet) (mount initial) of
          None \<Rightarrow> False
        | Some c \<Rightarrow> noForward c"
    by (simp add: mount_def initial_def startPaymentFlow_def noForward_def
        split: prod.splits)
  ultimately obtain c where
    c: "step exampleLibrary (ClickStart exampleWallet) (mount initial) = Some c"
      "status (ui c) = Waiting" "tempWallet (ui c) = Some exampleWallet"
      "parseFloat exampleLibrary (amount (ui c)) = balanceInSol 10000000"
      "num_ge (balanceInSol 10000000) (parseFloat exampleLibrary (amount (ui c)))"
      "newPublicKey exampleLibrary (sellerAddress (ui c)) = Inr DEFAULT_SELLER_ADDRESS"
      "transferThrows exampleLibrary (publicKey exampleWallet) DEFAULT_SELLER_ADDRESS
              (10000000 - 5000) = None"
      "\<not> num_ge (balanceInSol 9999999) (parseFloat exampleLibrary (amount (ui c)))"
      "transfers (calls c) = []"
      "quietRun exampleLibrary ?es c" "filter isTick ?es = []" "noForward c"
    by (auto split: option.splits)
  note met = C2_threshold_decides [OF c(2,3), where lamports = 10000000 and
      lib = exampleLibrary, THEN conjunct1, rule_format, OF c(5)]
  from met c(6,7)
  obtain c1 where c1:
    "run exampleLibrary [PollTick, GetBalanceSettles (started c) (Inr 10000000)] c = Some c1"
    "ui c1 = (ui c)\<lparr>balance := balanceInSol 10000000, status := Forwarding\<rparr>"
    by auto
  note below = C2_threshold_decides [OF c(2,3), where lamports = 9999999 and
      lib = exampleLibrary and es = ?es, THEN conjunct2, THEN conjunct2]
  from below [THEN conjunct1, rule_format, OF c(8)]
  obtain c2 where c2:
    "run exampleLibrary [PollTick, GetBalanceSettles (started c) (Inr 9999999)] c = Some c2"
    "ui c2 = (ui c)\<lparr>balance := balanceInSol 9999999\<rparr>"
    by blast
  from below [THEN conjunct2, rule_format] c(9,10,11,12)
  obtain c3 where c3: "run exampleLibrary ?es c = Some c3" "status (ui c3) = Waiting"
    "transfers (calls c3) = []"
    by auto
  have "case step exampleLibrary (ClickStart exampleWallet)
            (mount (initial\<lparr>amount := ''0.000001''\<rparr>)) of
          None \<Rightarrow> False
        | Some d \<Rightarrow> status (ui d) = Waiting \<and> tempWallet (ui d) = Some exampleWallet \<and>
            num_ge (balanceInSol 2000) (parseFloat exampleLibrary (amount (ui d))) \<and>
            newPublicKey exampleLibrary (sellerAddress (ui d)) = Inr DEFAULT_SELLER_ADDRESS \<and>
            transferThrows exampleLibrary (publicKey exampleWallet) DEFAULT_SELLER_ADDRESS
              (2000 - 5000) = Some ''lamports out of range''"
    by code_simp
  then obtain d where
    d: "step exampleLibrary (ClickStart exampleWallet)
            (mount (initial\<lparr>amount := ''0.000001''\<rparr>)) = Some d"
      "status (ui d) = Waiting" "tempWallet (ui d) = Some exampleWallet"
      "num_ge (balanceInSol 2000) (parseFloat exampleLibrary (amount (ui d)))"
      "newPublicKey exampleLibrary (sellerAddress (ui d)) = Inr DEFAULT_SELLER_ADDRESS"
      "transferThrows exampleLibrary (publicKey exampleWallet) DEFAULT_SELLER_ADDRESS
              (2000 - 5000) = Some ''lamports out of range''"
    by (auto split: option.splits)
  note thrown = C2_threshold_decides [OF d(2,3), where lamports = 2000 and
      lib = exampleLibrary, THEN conjunct1, rule_format, OF d(4)]
  from thrown d(5,6)
  obtain d1 where d1:
    "run exampleLibrary [PollTick, GetBalanceSettles (started d) (Inr 2000)] d = Some d1"
    "ui d1 = (ui d)\<lparr>balance := balanceInSol 2000,
        error := Some (''Failed to forward payment: '' @ ''lamports out of range''),
        status := Waiting\<rparr>"
    by auto
  from c1(2) have s1: "status (ui c1) = Forwarding" by simp
  from c2(2) c(2) have s2: "status (ui c2) = Waiting" "balance (ui c2) = balanceInSol 9999999"
    by simp_all
  from d1(2) have sd: "status (ui d1) = Waiting"
    "error (ui d1) = Some ''Failed to forward payment: lamports out of range''"
    by simp_all
  from c(1,2,3,4,8) c1(1) s1 c2(1) s2 c3 d(1,2,3,4) d1(1) sd show ?thesis
    by blast
qed

text \<open>
  Against the claim as stated: the amount 0.000001 SOL passes the start validation, and a
  poll in \<open>waiting\<close> finds 2000 lamports, which meets it. The transfer of
  \<open>2000 - 5000\<close> lamports cannot be built, and the poll ends in \<open>waiting\<close> with the
  error set, nothing handed to \<open>sendTransaction\<close> and no invocation in flight.
\<close>

theorem C2_sufficient_balance_ends_waiting:
  "num_ge (balanceInSol 2000) (parseFloat exampleLibrary ''0.000001'') \<and>
   map_option snapshot
     (run exampleLibrary [ClickStart exampleWallet, PollTick, GetBalanceSettles 0 (Inr 2000)]
        (mount (initial\<lparr>amount := ''0.000001''\<rparr>))) =
   Some (Waiting, balanceInSol 2000,
         Some ''Failed to forward payment: lamports out of range'',
         [SystemProgramTransfer ''EphemeralAddress'' DEFAULT_SELLER_ADDRESS (2000 - 5000)]) \<and>
   map_option sent
     (run exampleLibrary [ClickStart exampleWallet, PollTick, GetBalanceSettles 0 (Inr 2000)]
        (mount (initial\<lparr>amount := ''0.000001''\<rparr>))) = Some [] \<and>
   map_option suspended
     (run exampleLibrary [ClickStart exampleWallet, PollTick, GetBalanceSettles 0 (Inr 2000)]
        (mount (initial\<lparr>amount := ''0.000001''\<rparr>))) = Some [None]"
  by code_simp

section \<open>The amount forwarded\<close>

lemma gotBalance_calls:
  assumes "gotBalance lib wallet seller requiredAmount lamports s = (s', cs, k)"
    and "SystemProgramTransfer f t n \<in> set cs \<or> SendTransaction f t n \<in> set cs"
  shows "n = lamports - 5000 \<and> f = publicKey wallet \<and> newPublicKey lib seller = Inr t \<and>
         num_ge (balanceInSol lamports) requiredAmount"
  using assms
  by (auto simp: gotBalance_def Let_def split: if_splits sum.splits option.splits)



lemma step_calls:
  assumes "step lib e c = Some c'"
  shows "\<exists>cs. calls c' = calls c @ cs \<and>
           (\<forall>f t n. SystemProgramTransfer f t n \<in> set cs \<or> SendTransaction f t n \<in> set cs \<longrightarrow>
              (\<exists>i lamports wallet seller amountText.
                 e = GetBalanceSettles i (Inr lamports) \<and>
                 inflight c i = Some (AwaitGetBalance wallet seller amountText) \<and>
                 n = lamports - 5000 \<and> f = publicKey wallet \<and>
                 newPublicKey lib seller = Inr t \<and>
                 num_ge (balanceInSol lamports) (parseFloat lib amountText) \<and>
                 balance (ui c') = balanceInSol lamports))"
proof (cases e)
  case (ClickStart w)
  with assms show ?thesis
    by (auto simp: startPaymentFlow_def Let_def split: if_splits option.splits)
next
  case ClickReset
  with assms show ?thesis by (auto split: if_splits)
next
  case CountdownTick
  with assms show ?thesis by (auto split: if_splits)
next
  case PollTick
  with assms show ?thesis by (auto split: if_splits option.splits)
next
  case (GetBalanceSettles i answer)
  with assms obtain wallet seller amountText where
    k: "inflight c i = Some (AwaitGetBalance wallet seller amountText)"
    and c': "c' = resume i (afterGetBalance lib wallet seller amountText answer (ui c)) c"
    by (auto split: option.splits continuation.splits)
  show ?thesis
  proof (cases answer)
    case (Inl message)
    with c' show ?thesis
      by (simp add: resume_def afterGetBalance_def)
  next
    case (Inr lamports)
    obtain s' cs k' where
      g: "gotBalance lib wallet seller (parseFloat lib amountText) lamports (ui c) = (s', cs, k')"
      by (cases "gotBalance lib wallet seller (parseFloat lib amountText) lamports (ui c)")
    with c' Inr have r: "calls c' = calls c @ cs" "ui c' = s'"
      by (simp_all add: resume_def afterGetBalance_def)
    have b: "balance s' = balanceInSol lamports"
      using g by (auto simp: gotBalance_def Let_def forwardFailed_def
          split: if_splits sum.splits option.splits)
    from gotBalance_calls [OF g] k r b GetBalanceSettles Inr show ?thesis
      by blast
  qed
next
  case (SendTransactionSettles i answer)
  with assms show ?thesis
    by (auto simp: resume_def afterSendTransaction_def
        split: option.splits continuation.splits sum.splits)
next
  case (ConfirmTransactionSettles i answer)
  with assms show ?thesis
    by (auto simp: resume_def afterConfirmTransaction_def
        split: option.splits continuation.splits sum.splits)
qed





section \<open>Overlapping polls and late answers\<close>

text \<open>
  Claim C5, as the code has it. The poll interval (like the countdown) fires only
  while a wallet exists and the status is \<open>waiting\<close>. An invocation that issues the
  forward has set the status to \<open>forwarding\<close>, where neither timer fires; and if it is
  the only invocation not yet returned, nothing at all can happen in \<open>forwarding\<close> but
  the answers to its own calls. Invocations begun while \<open>waiting\<close> are not held back
  for one another.
\<close>

theorem C5_polls_begin_only_while_waiting:
  "(status (ui c) \<noteq> Waiting \<longrightarrow>
      step lib PollTick c = None \<and> step lib CountdownTick c = None) \<and>
   (step lib (GetBalanceSettles i answer) c = Some c' \<and>
    inflight c' i = Some AwaitSendTransaction \<longrightarrow>
      status (ui c') = Forwarding \<and>
      step lib PollTick c' = None \<and> step lib CountdownTick c' = None) \<and>
   (status (ui c) = Forwarding \<and> (\<forall>j. j \<noteq> i \<longrightarrow> inflight c j = None) \<and>
    step lib e c = Some c' \<longrightarrow>
      (\<exists>answer. e = GetBalanceSettles i answer) \<or>
      (\<exists>answer. e = SendTransactionSettles i answer) \<or>
      (\<exists>answer. e = ConfirmTransactionSettles i answer))"
proof -
  have p1: "status (ui c) \<noteq> Waiting \<longrightarrow>
      step lib PollTick c = None \<and> step lib CountdownTick c = None"
    by (simp add: timersActive_def split: option.splits)
  have p2: "step lib (GetBalanceSettles i answer) c = Some c' \<and>
      inflight c' i = Some AwaitSendTransaction \<longrightarrow>
      status (ui c') = Forwarding \<and>
      step lib PollTick c' = None \<and> step lib CountdownTick c' = None"
  proof
    assume h: "step lib (GetBalanceSettles i answer) c = Some c' \<and>
      inflight c' i = Some AwaitSendTransaction"
    then have "status (ui c') = Forwarding"
      by (auto simp: resume_def afterGetBalance_def gotBalance_def Let_def
          split: option.splits continuation.splits sum.splits if_splits)
    then show "status (ui c') = Forwarding \<and>
      step lib PollTick c' = None \<and> step lib CountdownTick c' = None"
      by (simp add: timersActive_def split: option.splits)
  qed
  have p3: "status (ui c) = Forwarding \<and> (\<forall>j. j \<noteq> i \<longrightarrow> inflight c j = None) \<and>
      step lib e c = Some c' \<longrightarrow>
      (\<exists>answer. e = GetBalanceSettles i answer) \<or>
      (\<exists>answer. e = SendTransactionSettles i answer) \<or>
      (\<exists>answer. e = ConfirmTransactionSettles i answer)"
  proof
    assume h: "status (ui c) = Forwarding \<and> (\<forall>j. j \<noteq> i \<longrightarrow> inflight c j = None) \<and>
      step lib e c = Some c'"
    then show "(\<exists>answer. e = GetBalanceSettles i answer) \<or>
      (\<exists>answer. e = SendTransactionSettles i answer) \<or>
      (\<exists>answer. e = ConfirmTransactionSettles i answer)"
      by (cases e) (auto simp: timersActive_def split: option.splits if_splits)
  qed
  show ?thesis
    by (rule conjI, fact p1, rule conjI, fact p2, fact p3)
qed

theorem C5_polls_begin_only_while_waiting_witness:
  "\<exists>c c'. run exampleLibrary [ClickStart exampleWallet, PollTick] (mount initial) = Some c \<and>
     step exampleLibrary (GetBalanceSettles 0 (Inr 10000000)) c = Some c' \<and>
     inflight c' 0 = Some AwaitSendTransaction \<and>
     status (ui c') = Forwarding \<and>
     status (ui c') \<noteq> Waiting \<and>
     step exampleLibrary PollTick c' = None \<and> step exampleLibrary CountdownTick c' = None"
proof -
  have "case run exampleLibrary [ClickStart exampleWallet, PollTick] (mount initial) of
          None \<Rightarrow> False
        | Some c \<Rightarrow>
            (case step exampleLibrary (GetBalanceSettles 0 (Inr 10000000)) c of
               None \<Rightarrow> False
             | Some c' \<Rightarrow> inflight c' 0 = Some AwaitSendTransaction)"
    by code_simp
  then obtain c c' where
    c: "run exampleLibrary [ClickStart exampleWallet, PollTick] (mount initial) = Some c"
      "step exampleLibrary (GetBalanceSettles 0 (Inr 10000000)) c = Some c'"
      "inflight c' 0 = Some AwaitSendTransaction"
    by (auto split: option.splits)
  from C5_polls_begin_only_while_waiting
    [where lib = exampleLibrary and c = c and c' = c' and i = 0 and answer = "Inr 10000000"]
    c(2,3)
  have "status (ui c') = Forwarding \<and>
      step exampleLibrary PollTick c' = None \<and> step exampleLibrary CountdownTick c' = None"
    by blast
  with c show ?thesis by auto
qed

text \<open>
  Against the claim as stated: while the first balance check is in flight the interval
  fires again and a second check begins; both are answered with the same sufficient
  balance, and the page issues the transfer of the same funds twice.
\<close>

theorem C5_overlapping_polls_forward_twice:
  "map_option suspended
     (run exampleLibrary [ClickStart exampleWallet, PollTick, PollTick] (mount initial)) =
   Some [Some (AwaitGetBalance exampleWallet DEFAULT_SELLER_ADDRESS DEFAULT_AMOUNT),
         Some (AwaitGetBalance exampleWallet DEFAULT_SELLER_ADDRESS DEFAULT_AMOUNT)] \<and>
   map_option snapshot
     (run exampleLibrary
        [ClickStart exampleWallet, PollTick, PollTick,
         GetBalanceSettles 0 (Inr 10000000), GetBalanceSettles 1 (Inr 10000000)]
        (mount initial)) =
   Some (Forwarding, balanceInSol 10000000, None,
         [SystemProgramTransfer ''EphemeralAddress'' DEFAULT_SELLER_ADDRESS 9995000,
          SystemProgramTransfer ''EphemeralAddress'' DEFAULT_SELLER_ADDRESS 9995000]) \<and>
   map_option suspended
     (run exampleLibrary
        [ClickStart exampleWallet, PollTick, PollTick,
         GetBalanceSettles 0 (Inr 10000000), GetBalanceSettles 1 (Inr 10000000)]
        (mount initial)) =
   Some [Some AwaitSendTransaction, Some AwaitSendTransaction]"
  by code_simp

text \<open>
  Claim C6, as the code has it. Once the status is \<open>expired\<close>, or \<open>setup\<close> after a
  reset, neither timer fires, so no new balance check begins; and a balance check still
  in flight that is answered by a failure or by a balance below its amount leaves the
  status, the wallet and the time left as they are and makes no call.
\<close>

theorem C6_late_quiet_answer_keeps_status:
  "(status (ui c) = Expired \<or> status (ui c) = Setup \<longrightarrow>
      step lib PollTick c = None \<and> step lib CountdownTick c = None) \<and>
   (quiet lib c (GetBalanceSettles i answer) \<and>
    step lib (GetBalanceSettles i answer) c = Some c' \<longrightarrow>
      status (ui c') = status (ui c) \<and> tempWallet (ui c') = tempWallet (ui c) \<and>
      timeLeft (ui c') = timeLeft (ui c) \<and> calls c' = calls c)"
proof -
  have p1: "status (ui c) = Expired \<or> status (ui c) = Setup \<longrightarrow>
      step lib PollTick c = None \<and> step lib CountdownTick c = None"
    by (auto simp: timersActive_def split: option.splits)
  have p2: "quiet lib c (GetBalanceSettles i answer) \<and>
      step lib (GetBalanceSettles i answer) c = Some c' \<longrightarrow>
      status (ui c') = status (ui c) \<and> tempWallet (ui c') = tempWallet (ui c) \<and>
      timeLeft (ui c') = timeLeft (ui c) \<and> calls c' = calls c"
    by (cases answer)
      (auto simp: resume_def afterGetBalance_def gotBalance_def checkFailed_def
        split: option.splits continuation.splits)
  show ?thesis
    by (rule conjI, fact p1, fact p2)
qed

theorem C6_late_quiet_answer_keeps_status_witness:
  "\<exists>c c'. run exampleLibrary
       ([ClickStart exampleWallet, PollTick] @ replicate 300 CountdownTick)
       (mount initial) = Some c \<and>
     status (ui c) = Expired \<and>
     step exampleLibrary PollTick c = None \<and> step exampleLibrary CountdownTick c = None \<and>
     quiet exampleLibrary c (GetBalanceSettles 0 (Inr 9999999)) \<and>
     step exampleLibrary (GetBalanceSettles 0 (Inr 9999999)) c = Some c' \<and>
     status (ui c') = Expired \<and> balance (ui c') = balanceInSol 9999999"
proof -
  have "case run exampleLibrary
       ([ClickStart exampleWallet, PollTick] @ replicate 300 CountdownTick)
       (mount initial) of
          None \<Rightarrow> False
        | Some c \<Rightarrow> status (ui c) = Expired \<and>
            quiet exampleLibrary c (GetBalanceSettles 0 (Inr 9999999)) \<and>
            (case step exampleLibrary (GetBalanceSettles 0 (Inr 9999999)) c of
               None \<Rightarrow> False
             | Some c' \<Rightarrow> balance (ui c') = balanceInSol 9999999)"
    by code_simp
  then obtain c c' where
    c: "run exampleLibrary
       ([ClickStart exampleWallet, PollTick] @ replicate 300 CountdownTick)
       (mount initial) = Some c"
      "status (ui c) = Expired"
      "quiet exampleLibrary c (GetBalanceSettles 0 (Inr 9999999))"
      "step exampleLibrary (GetBalanceSettles 0 (Inr 9999999)) c = Some c'"
      "balance (ui c') = balanceInSol 9999999"
    by (auto split: option.splits)
  from C6_late_quiet_answer_keeps_status
    [where lib = exampleLibrary and c = c and c' = c' and i = 0 and answer = "Inr 9999999"]
    c(2,3,4)
  have "step exampleLibrary PollTick c = None \<and> step exampleLibrary CountdownTick c = None \<and>
      status (ui c') = Expired"
    by simp
  with c show ?thesis by auto
qed

text \<open>
  Against the claim as stated: a balance check begins, the countdown then runs out and
  the status is \<open>expired\<close>; the check is answered afterwards with a sufficient balance,
  and the status becomes \<open>forwarding\<close>; the forward then fails, and the status becomes
  \<open>waiting\<close>.
\<close>

theorem C6_late_answer_leaves_expired:
  "map_option snapshot
     (run exampleLibrary
        ([ClickStart exampleWallet, PollTick] @ replicate 300 CountdownTick)
        (mount initial)) =
   Some (Expired, Finite 0, None, []) \<and>
   map_option snapshot
     (run exampleLibrary
        ([ClickStart exampleWallet, PollTick] @ replicate 300 CountdownTick @
         [GetBalanceSettles 0 (Inr 10000000)])
        (mount initial)) =
   Some (Forwarding, balanceInSol 10000000, None,
         [SystemProgramTransfer ''EphemeralAddress'' DEFAULT_SELLER_ADDRESS 9995000]) \<and>
   map_option snapshot
     (run exampleLibrary
        ([ClickStart exampleWallet, PollTick] @ replicate 300 CountdownTick @
         [GetBalanceSettles 0 (Inr 10000000), SendTransactionSettles 0 (Inl ''rejected'')])
        (mount initial)) =
   Some (Waiting, balanceInSol 10000000, Some ''Failed to forward payment: rejected'',
         [SystemProgramTransfer ''EphemeralAddress'' DEFAULT_SELLER_ADDRESS 9995000])"
  by code_simp

section \<open>The keypair and the error message\<close>

text \<open>
  Claim C8, as the code has it. Entering \<open>forwarded\<close> or \<open>expired\<close> does not discard
  the keypair: every event other than a click on one of the two buttons leaves
  \<open>tempWallet\<close> as it was. In \<open>forwarded\<close> and in \<open>expired\<close> the restart button can
  be clicked, and the click sets \<open>tempWallet\<close> to null and the status to \<open>setup\<close>; it
  leaves the balance checks in flight as they are, and such a check keeps the keypair it
  began with: whatever it issues when it is answered, it issues from that keypair.
\<close>

theorem C8_reset_clears_wallet_cell:
  "(status (ui c) = Forwarded \<or> status (ui c) = Expired \<longrightarrow>
      (\<exists>c'. step lib ClickReset c = Some c' \<and>
         tempWallet (ui c') = None \<and> status (ui c') = Setup \<and>
         inflight c' = inflight c \<and> calls c' = calls c)) \<and>
   (step lib e c = Some d \<and> e \<noteq> ClickReset \<and> (\<forall>newWallet. e \<noteq> ClickStart newWallet) \<longrightarrow>
      tempWallet (ui d) = tempWallet (ui c)) \<and>
   (inflight c i = Some (AwaitGetBalance wallet seller amountText) \<and>
    step lib (GetBalanceSettles i answer) c = Some d \<longrightarrow>
      (\<exists>cs. calls d = calls c @ cs \<and>
         (\<forall>f t n. SystemProgramTransfer f t n \<in> set cs \<or> SendTransaction f t n \<in> set cs \<longrightarrow>
            f = publicKey wallet)))"
proof -
  have p1: "status (ui c) = Forwarded \<or> status (ui c) = Expired \<longrightarrow>
      (\<exists>c'. step lib ClickReset c = Some c' \<and>
         tempWallet (ui c') = None \<and> status (ui c') = Setup \<and>
         inflight c' = inflight c \<and> calls c' = calls c)"
    by (auto simp: resetFlow_def)
  have p2: "step lib e c = Some d \<and> e \<noteq> ClickReset \<and>
      (\<forall>newWallet. e \<noteq> ClickStart newWallet) \<longrightarrow>
      tempWallet (ui d) = tempWallet (ui c)"
  proof (cases e)
    case (GetBalanceSettles i answer)
    then show ?thesis
      by (cases answer)
        (auto simp: resume_def afterGetBalance_def gotBalance_def checkFailed_def
          forwardFailed_def Let_def
          split: option.splits continuation.splits sum.splits if_splits)
  next
    case (SendTransactionSettles i answer)
    then show ?thesis
      by (auto simp: resume_def afterSendTransaction_def forwardFailed_def
          split: option.splits continuation.splits sum.splits)
  next
    case (ConfirmTransactionSettles i answer)
    then show ?thesis
      by (auto simp: resume_def afterConfirmTransaction_def forwardFailed_def
          split: option.splits continuation.splits sum.splits)
  qed (auto simp: countdown_def split: option.splits if_splits)
  have p3: "inflight c i = Some (AwaitGetBalance wallet seller amountText) \<and>
    step lib (GetBalanceSettles i answer) c = Some d \<longrightarrow>
      (\<exists>cs. calls d = calls c @ cs \<and>
         (\<forall>f t n. SystemProgramTransfer f t n \<in> set cs \<or> SendTransaction f t n \<in> set cs \<longrightarrow>
            f = publicKey wallet))"
  proof
    assume h: "inflight c i = Some (AwaitGetBalance wallet seller amountText) \<and>
      step lib (GetBalanceSettles i answer) c = Some d"
    from step_calls [of lib "GetBalanceSettles i answer" c d] h
    show "\<exists>cs. calls d = calls c @ cs \<and>
         (\<forall>f t n. SystemProgramTransfer f t n \<in> set cs \<or> SendTransaction f t n \<in> set cs \<longrightarrow>
            f = publicKey wallet)"
      by fastforce
  qed
  show ?thesis
    by (rule conjI, fact p1, rule conjI, fact p2, fact p3)
qed

theorem C8_reset_clears_wallet_cell_witness:
  "\<exists>c c' c''. run exampleLibrary
       ([ClickStart exampleWallet, PollTick] @ replicate 300 CountdownTick)
       (mount initial) = Some c \<and>
     status (ui c) = Expired \<and> tempWallet (ui c) = Some exampleWallet \<and>
     step exampleLibrary ClickReset c = Some c' \<and>
     tempWallet (ui c') = None \<and> status (ui c') = Setup \<and>
     inflight c' 0 = Some (AwaitGetBalance exampleWallet DEFAULT_SELLER_ADDRESS DEFAULT_AMOUNT) \<and>
     step exampleLibrary (GetBalanceSettles 0 (Inr 10000000)) c' = Some c'' \<and>
     tempWallet (ui c'') = None \<and>
     sends (calls c'') =
       [SendTransaction (publicKey exampleWallet) DEFAULT_SELLER_ADDRESS 9995000]"
proof -
  have "case run exampleLibrary
       ([ClickStart exampleWallet, PollTick] @ replicate 300 CountdownTick)
       (mount initial) of
          None \<Rightarrow> False
        | Some c \<Rightarrow> status (ui c) = Expired \<and> tempWallet (ui c) = Some exampleWallet \<and>
            inflight c 0 =
              Some (AwaitGetBalance exampleWallet DEFAULT_SELLER_ADDRESS DEFAULT_AMOUNT)"
    by code_simp
  then obtain c where
    c: "run exampleLibrary
       ([ClickStart exampleWallet, PollTick] @ replicate 300 CountdownTick)
       (mount initial) = Some c"
      "status (ui c) = Expired" "tempWallet (ui c) = Some exampleWallet"
      "inflight c 0 = Some (AwaitGetBalance exampleWallet DEFAULT_SELLER_ADDRESS DEFAULT_AMOUNT)"
    by (auto split: option.splits)
  from C8_reset_clears_wallet_cell [where lib = exampleLibrary and c = c] c(2)
  obtain c' where
    c': "step exampleLibrary ClickReset c = Some c'" "tempWallet (ui c') = None"
      "status (ui c') = Setup" "inflight c' = inflight c"
    by blast
  from c'(4) c(4) have k: "inflight c' 0 =
      Some (AwaitGetBalance exampleWallet DEFAULT_SELLER_ADDRESS DEFAULT_AMOUNT)"
    by simp
  have "case run exampleLibrary
       ([ClickStart exampleWallet, PollTick] @ replicate 300 CountdownTick @
        [ClickReset, GetBalanceSettles 0 (Inr 10000000)])
       (mount initial) of
          None \<Rightarrow> False
        | Some c'' \<Rightarrow> sends (calls c'') =
            [SendTransaction (publicKey exampleWallet) DEFAULT_SELLER_ADDRESS 9995000]"
    by code_simp
  then obtain c'' where
    r: "run exampleLibrary
       ([ClickStart exampleWallet, PollTick] @ replicate 300 CountdownTick @
        [ClickReset, GetBalanceSettles 0 (Inr 10000000)])
       (mount initial) = Some c''"
      "sends (calls c'') =
         [SendTransaction (publicKey exampleWallet) DEFAULT_SELLER_ADDRESS 9995000]"
    by (auto split: option.splits)
  from r(1) c(1) c'(1)
  have s: "step exampleLibrary (GetBalanceSettles 0 (Inr 10000000)) c' = Some c''"
    using run_append [of exampleLibrary
        "[ClickStart exampleWallet, PollTick] @ replicate 300 CountdownTick"
        "[ClickReset, GetBalanceSettles 0 (Inr 10000000)]" "mount initial"]
    by (simp split: option.splits)
  from C8_reset_clears_wallet_cell
    [where lib = exampleLibrary and c = c' and d = c'' and
      e = "GetBalanceSettles 0 (Inr 10000000)"] s c'(2)
  have "tempWallet (ui c'') = None"
    by simp
  with c c' k s r(2) show ?thesis by blast
qed

text \<open>
  Against the claim as stated: after the forward is confirmed the status is
  \<open>forwarded\<close> and the state still holds the keypair; after the countdown has run out
  the status is \<open>expired\<close> and the state still holds the keypair.
\<close>

theorem C8_key_kept_in_terminal_states:
  "map_option keyHeld
     (run exampleLibrary
        [ClickStart exampleWallet, PollTick, GetBalanceSettles 0 (Inr 10000000),
         SendTransactionSettles 0 (Inr ''5sig''), ConfirmTransactionSettles 0 (Inr ())]
        (mount initial)) =
   Some (Forwarded, Some exampleWallet) \<and>
   map_option keyHeld
     (run exampleLibrary (ClickStart exampleWallet # replicate 300 CountdownTick)
        (mount initial)) =
   Some (Expired, Some exampleWallet)"
  by code_simp

text \<open>
  Claim C9, as the code has it. The error is cleared by a start that enters
  \<open>waiting\<close> (in the first revision, by \<open>generateNewWallet\<close>) and by a reset. A step
  that changes the status to \<open>forwarding\<close> or to \<open>forwarded\<close> leaves the error as it
  was.
\<close>

theorem C9_error_cleared_by_start_and_reset:
  "(step lib (ClickStart newWallet) c = Some c' \<and> status (ui c') = Waiting \<longrightarrow>
      error (ui c') = None) \<and>
   (step lib ClickReset c = Some c' \<longrightarrow> error (ui c') = None) \<and>
   (step lib e c = Some c' \<and> status (ui c') \<noteq> status (ui c) \<and>
    (status (ui c') = Forwarding \<or> status (ui c') = Forwarded) \<longrightarrow>
      error (ui c') = error (ui c)) \<and>
   error (fst (generateNewWallet newWallet s)) = None"
proof -
  have p1: "step lib (ClickStart newWallet) c = Some c' \<and> status (ui c') = Waiting \<longrightarrow>
      error (ui c') = None"
    by (auto simp: startPaymentFlow_def Let_def split: if_splits option.splits)
  have p2: "step lib ClickReset c = Some c' \<longrightarrow> error (ui c') = None"
    by (auto simp: resetFlow_def split: if_splits)
  have p3: "step lib e c = Some c' \<and> status (ui c') \<noteq> status (ui c) \<and>
      (status (ui c') = Forwarding \<or> status (ui c') = Forwarded) \<longrightarrow>
      error (ui c') = error (ui c)"
  proof (cases e)
    case (ClickStart w)
    then show ?thesis
      by (auto simp: startPaymentFlow_def Let_def split: if_splits option.splits)
  next
    case (GetBalanceSettles i answer)
    then show ?thesis
      by (cases answer)
        (auto simp: resume_def afterGetBalance_def gotBalance_def checkFailed_def
          forwardFailed_def Let_def
          split: option.splits continuation.splits sum.splits if_splits)
  next
    case (SendTransactionSettles i answer)
    then show ?thesis
      by (auto simp: resume_def afterSendTransaction_def forwardFailed_def
          split: option.splits continuation.splits sum.splits)
  next
    case (ConfirmTransactionSettles i answer)
    then show ?thesis
      by (auto simp: resume_def afterConfirmTransaction_def forwardFailed_def
          split: option.splits continuation.splits sum.splits)
  qed (auto simp: countdown_def resetFlow_def split: option.splits if_splits)
  have p4: "error (fst (generateNewWallet newWallet s)) = None"
    by (simp add: generateNewWallet_def)
  show ?thesis
    by (rule conjI, fact p1, rule conjI, fact p2, rule conjI, fact p3, fact p4)
qed

theorem C9_error_cleared_by_start_and_reset_witness:
  "\<exists>c c'. step exampleLibrary (ClickStart exampleWallet)
       (mount (initial\<lparr>error := Some ''Failed to check balance: fetch failed''\<rparr>)) = Some c \<and>
     status (ui c) = Waiting \<and> error (ui c) = None \<and>
     run exampleLibrary [PollTick, GetBalanceSettles 0 (Inl ''fetch failed''), PollTick]
       c = Some c' \<and>
     error (ui c') = Some ''Failed to check balance: fetch failed'' \<and>
     status (ui c') = Waiting \<and>
     (\<exists>c''. step exampleLibrary (GetBalanceSettles 1 (Inr 10000000)) c' = Some c'' \<and>
        status (ui c'') = Forwarding \<and>
        error (ui c'') = Some ''Failed to check balance: fetch failed'')"
proof -
  let ?c0 = "mount (initial\<lparr>error := Some ''Failed to check balance: fetch failed''\<rparr>)"
  have "case step exampleLibrary (ClickStart exampleWallet) ?c0 of
          None \<Rightarrow> False
        | Some c \<Rightarrow> status (ui c) = Waiting \<and>
            (case run exampleLibrary
                [PollTick, GetBalanceSettles 0 (Inl ''fetch failed''), PollTick] c of
               None \<Rightarrow> False
             | Some c' \<Rightarrow>
                 error (ui c') = Some ''Failed to check balance: fetch failed'' \<and>
                 status (ui c') = Waiting \<and>
                 (case step exampleLibrary (GetBalanceSettles 1 (Inr 10000000)) c' of
                    None \<Rightarrow> False
                  | Some c'' \<Rightarrow> status (ui c'') = Forwarding))"
    by code_simp
  then obtain c c' c'' where
    c: "step exampleLibrary (ClickStart exampleWallet) ?c0 = Some c"
      "status (ui c) = Waiting"
      "run exampleLibrary [PollTick, GetBalanceSettles 0 (Inl ''fetch failed''), PollTick]
         c = Some c'"
      "error (ui c') = Some ''Failed to check balance: fetch failed''"
      "status (ui c') = Waiting"
      "step exampleLibrary (GetBalanceSettles 1 (Inr 10000000)) c' = Some c''"
      "status (ui c'') = Forwarding"
    by (auto split: option.splits)
  from C9_error_cleared_by_start_and_reset
    [where lib = exampleLibrary and c = ?c0 and c' = c and newWallet = exampleWallet] c(1,2)
  have e0: "error (ui c) = None"
    by blast
  from C9_error_cleared_by_start_and_reset
    [where lib = exampleLibrary and c = c' and c' = c'' and
      e = "GetBalanceSettles 1 (Inr 10000000)"] c(4,5,6,7)
  have "error (ui c'') = Some ''Failed to check balance: fetch failed''"
    by simp
  with c e0 show ?thesis by blast
qed

text \<open>
  Against the claim as stated: a balance check fails, and the next one finds the funds;
  the status goes to \<open>forwarding\<close> and then to \<open>forwarded\<close> with the message of the
  failed check still set.
\<close>

theorem C9_error_survives_forwarding:
  "map_option snapshot
     (run exampleLibrary
        [ClickStart exampleWallet, PollTick, GetBalanceSettles 0 (Inl ''fetch failed''),
         PollTick, GetBalanceSettles 1 (Inr 10000000)]
        (mount initial)) =
   Some (Forwarding, balanceInSol 10000000, Some ''Failed to check balance: fetch failed'',
         [SystemProgramTransfer ''EphemeralAddress'' DEFAULT_SELLER_ADDRESS 9995000]) \<and>
   map_option snapshot
     (run exampleLibrary
        [ClickStart exampleWallet, PollTick, GetBalanceSettles 0 (Inl ''fetch failed''),
         PollTick, GetBalanceSettles 1 (Inr 10000000),
         SendTransactionSettles 1 (Inr ''5sig''), ConfirmTransactionSettles 1 (Inr ())]
        (mount initial)) =
   Some (Forwarded, balanceInSol 10000000, Some ''Failed to check balance: fetch failed'',
         [SystemProgramTransfer ''EphemeralAddress'' DEFAULT_SELLER_ADDRESS 9995000])"
  by code_simp

end
